theory Spec2Isabelle
  imports Complex_Main "HOL-Library.Sublist"
begin

section \<open>Python strings: whitespace, strip and split\<close>

text \<open>
  The notebook "Processing GPS coordinates" defines two functions, \<open>notTraceMetadata\<close>
  and \<open>parseLogLine\<close>, and chains them in Spark pipelines. Both are built from
  methods of \<open>str\<close>, the builtin \<open>float\<close> and \<open>datetime.strptime\<close>; these library calls
  are modelled here as CPython 3.6 (the notebook's kernel) runs them, each with the
  exception it can raise.

  A Python \<open>str\<close> is modelled as a \<open>string\<close> whose characters are the code points
  0 to 255. \<open>isspace\<close> lists the code points of that range for which \<open>str.isspace\<close>
  holds; they are the ones \<open>str.strip()\<close> removes and the ones the regular expression
  class \<open>\s\<close> accepts.
\<close>

definition isspace :: "char \<Rightarrow> bool" where
  "isspace c \<longleftrightarrow> c \<in> set [CHR 0x09, CHR 0x0A, CHR 0x0B, CHR 0x0C, CHR 0x0D,
     CHR 0x1C, CHR 0x1D, CHR 0x1E, CHR 0x1F, CHR 0x20, CHR 0x85, CHR 0xA0]"

definition lstrip :: "string \<Rightarrow> string" where
  "lstrip s = dropWhile isspace s"

definition rstrip :: "string \<Rightarrow> string" where
  "rstrip s = rev (dropWhile isspace (rev s))"

text \<open>\<open>s.strip()\<close>: leading and trailing whitespace removed.\<close>

definition strip :: "string \<Rightarrow> string" where
  "strip s = rstrip (lstrip s)"

text \<open>
  \<open>s.split(",")\<close>: a scan over the string that closes the current field at every
  comma; empty fields are kept, and a string with \<open>n\<close> commas has \<open>n + 1\<close> fields.
\<close>

fun split_from :: "string \<Rightarrow> string \<Rightarrow> string list" where
  "split_from cur [] = [cur]"
| "split_from cur (c # cs) =
     (if c = CHR '','' then cur # split_from [] cs else split_from (cur @ [c]) cs)"

definition split_comma :: "string \<Rightarrow> string list" where
  "split_comma s = split_from [] s"

section \<open>The line-validity predicate\<close>

text \<open>
  \<^verbatim>\<open>
  def notTraceMetadata(line):
      a = line.split(",")
      return True if len(a) == 7 else False
  \<close>
\<close>

definition notTraceMetadata :: "string \<Rightarrow> bool" where
  "notTraceMetadata line = (let a = split_comma line in if length a = 7 then True else False)"

section \<open>Errors\<close>

text \<open>
  The exceptions the notebook's own code and the calls it makes can raise. OverflowError
  and OSError are what \<open>datetime.timestamp()\<close> raises, besides ValueError, where the
  platform cannot represent the time.
\<close>

datatype error = IndexError | ValueError | KeyError | OverflowError | OSError

definition bind_e :: "error + 'a \<Rightarrow> ('a \<Rightarrow> error + 'b) \<Rightarrow> error + 'b" where
  "bind_e m f = (case m of Inl e \<Rightarrow> Inl e | Inr x \<Rightarrow> f x)"

text \<open>\<open>xs[i]\<close> for a literal index \<open>i \<ge> 0\<close>: IndexError out of range.\<close>

definition getitem :: "'a list \<Rightarrow> nat \<Rightarrow> error + 'a" where
  "getitem xs i = (if i < length xs then Inr (xs ! i) else Inl IndexError)"

text \<open>\<open>d[k]\<close> for a dict: KeyError when the key is absent.\<close>

definition dict_getitem :: "('k \<rightharpoonup> 'v) \<Rightarrow> 'k \<Rightarrow> error + 'v" where
  "dict_getitem d k = (case d k of None \<Rightarrow> Inl KeyError | Some v \<Rightarrow> Inr v)"

section \<open>The builtin float()\<close>

text \<open>
  \<open>float(s)\<close> on a string removes the whitespace it knows around the literal (the C
  set of blanks, with the non-ASCII spaces U+0085 and U+00A0 turned into blanks first;
  the separators 0x1C to 0x1F are whitespace for \<open>str.strip\<close> but not for \<open>float\<close>),
  checks that underscores stand between digits only, and reads what is left as a decimal
  floating-point literal, \<open>inf\<close>, \<open>infinity\<close> or \<open>nan\<close>; anything else is a ValueError.
  The value of an accepted literal (the nearest double) is the parameter \<open>strtod\<close>, of
  an arbitrary type \<open>'f\<close> of floating-point values.
\<close>

definition is_digit :: "char \<Rightarrow> bool" where
  "is_digit c \<longleftrightarrow> c \<in> set ''0123456789''"

definition float_space :: "char \<Rightarrow> bool" where
  "float_space c \<longleftrightarrow> c \<in> set [CHR 0x09, CHR 0x0A, CHR 0x0B, CHR 0x0C, CHR 0x0D,
     CHR 0x20, CHR 0x85, CHR 0xA0]"

definition float_strip :: "string \<Rightarrow> string" where
  "float_strip s = rev (dropWhile float_space (rev (dropWhile float_space s)))"

fun underscores_ok :: "char \<Rightarrow> string \<Rightarrow> bool" where
  "underscores_ok prev [] = (prev \<noteq> CHR ''_'')"
| "underscores_ok prev (c # cs) =
     ((if c = CHR ''_'' then is_digit prev
       else if prev = CHR ''_'' then is_digit c else True)
      \<and> underscores_ok c cs)"

definition drop_sign :: "string \<Rightarrow> string" where
  "drop_sign s =
     (case s of [] \<Rightarrow> []
      | c # cs \<Rightarrow> if c = CHR ''+'' \<or> c = CHR ''-'' then cs else s)"

definition ci_match :: "string \<Rightarrow> string \<Rightarrow> string \<Rightarrow> bool" where
  "ci_match s lo up = list_all2 (\<lambda>c (l, u). c = l \<or> c = u) s (zip lo up)"

definition inf_or_nan :: "string \<Rightarrow> bool" where
  "inf_or_nan u \<longleftrightarrow> ci_match u ''inf'' ''INF'' \<or> ci_match u ''infinity'' ''INFINITY''
     \<or> ci_match u ''nan'' ''NAN''"

definition exponent_ok :: "string \<Rightarrow> bool" where
  "exponent_ok r =
     (case r of [] \<Rightarrow> True
      | c # cs \<Rightarrow> (c = CHR ''e'' \<or> c = CHR ''E'') \<and> drop_sign cs \<noteq> []
          \<and> list_all is_digit (drop_sign cs))"

definition decimal_ok :: "string \<Rightarrow> bool" where
  "decimal_ok u =
     (let ip = takeWhile is_digit u; r1 = dropWhile is_digit u in
      case r1 of [] \<Rightarrow> ip \<noteq> []
      | c # cs \<Rightarrow>
          if c = CHR ''.''
          then (ip \<noteq> [] \<or> takeWhile is_digit cs \<noteq> []) \<and> exponent_ok (dropWhile is_digit cs)
          else ip \<noteq> [] \<and> exponent_ok r1)"

definition float_literal :: "string \<Rightarrow> bool" where
  "float_literal t \<longleftrightarrow> underscores_ok (CHR 0x00) t
     \<and> (let u = drop_sign (filter (\<lambda>c. c \<noteq> CHR ''_'') t) in inf_or_nan u \<or> decimal_ok u)"

definition py_float :: "(string \<Rightarrow> 'f) \<Rightarrow> string \<Rightarrow> error + 'f" where
  "py_float strtod s =
     (let t = float_strip s in
      if float_literal t then Inr (strtod (filter (\<lambda>c. c \<noteq> CHR ''_'') t))
      else Inl ValueError)"

section \<open>datetime.strptime with the format %Y-%m-%d %H:%M:%S\<close>

record datetime =
  year :: nat
  month :: nat
  day :: nat
  hour :: nat
  minute :: nat
  second :: nat

text \<open>
  \<open>strptime\<close> turns the format into the regular expression
  \<^verbatim>\<open>(\d\d\d\d)-(1[0-2]|0[1-9]|[1-9])-(3[0-1]|[1-2]\d|0[1-9]|[1-9]| [1-9])\s+(2[0-3]|[0-1]\d|\d):([0-5]\d|\d):(6[0-1]|[0-5]\d|\d)\<close>
  and matches it at the start of the string. Each piece of the expression is modelled
  by the list of its matches in the order a backtracking matcher tries them: the text
  matched (for a group) and the rest of the input.
\<close>

definition cls1 :: "string \<Rightarrow> string \<Rightarrow> (string \<times> string) list" where
  "cls1 A s = (case s of a # r \<Rightarrow> if a \<in> set A then [([a], r)] else [] | [] \<Rightarrow> [])"

definition cls2 :: "string \<Rightarrow> string \<Rightarrow> string \<Rightarrow> (string \<times> string) list" where
  "cls2 A B s =
     (case s of a # b # r \<Rightarrow> if a \<in> set A \<and> b \<in> set B then [([a, b], r)] else []
      | _ \<Rightarrow> [])"

definition lit :: "char \<Rightarrow> string \<Rightarrow> string list" where
  "lit c s = (case s of a # r \<Rightarrow> if a = c then [r] else [] | [] \<Rightarrow> [])"

definition re_Y :: "string \<Rightarrow> (string \<times> string) list" where
  "re_Y s =
     (case s of a # b # c # d # r \<Rightarrow>
        if is_digit a \<and> is_digit b \<and> is_digit c \<and> is_digit d then [([a, b, c, d], r)] else []
      | _ \<Rightarrow> [])"

definition re_m :: "string \<Rightarrow> (string \<times> string) list" where
  "re_m s = cls2 ''1'' ''012'' s @ cls2 ''0'' ''123456789'' s @ cls1 ''123456789'' s"

definition re_d :: "string \<Rightarrow> (string \<times> string) list" where
  "re_d s = cls2 ''3'' ''01'' s @ cls2 ''12'' ''0123456789'' s @ cls2 ''0'' ''123456789'' s
     @ cls1 ''123456789'' s @ cls2 '' '' ''123456789'' s"

definition re_H :: "string \<Rightarrow> (string \<times> string) list" where
  "re_H s = cls2 ''2'' ''0123'' s @ cls2 ''01'' ''0123456789'' s @ cls1 ''0123456789'' s"

definition re_M :: "string \<Rightarrow> (string \<times> string) list" where
  "re_M s = cls2 ''012345'' ''0123456789'' s @ cls1 ''0123456789'' s"

definition re_S :: "string \<Rightarrow> (string \<times> string) list" where
  "re_S s = cls2 ''6'' ''01'' s @ cls2 ''012345'' ''0123456789'' s @ cls1 ''0123456789'' s"

text \<open>\<^verbatim>\<open>\s+\<close>, greedy: the longest run of whitespace first, then the shorter ones.\<close>

definition re_spaces :: "string \<Rightarrow> string list" where
  "re_spaces s = map (\<lambda>k. drop k s) (rev [1 ..< Suc (length (takeWhile isspace s))])"

definition strptime_match ::
  "string \<Rightarrow> ((string \<times> string \<times> string \<times> string \<times> string \<times> string) \<times> string) list" where
  "strptime_match s =
     [((Y, m, d, H, M, S), r11).
        (Y, r1) \<leftarrow> re_Y s, r2 \<leftarrow> lit (CHR ''-'') r1,
        (m, r3) \<leftarrow> re_m r2, r4 \<leftarrow> lit (CHR ''-'') r3,
        (d, r5) \<leftarrow> re_d r4, r6 \<leftarrow> re_spaces r5,
        (H, r7) \<leftarrow> re_H r6, r8 \<leftarrow> lit (CHR '':'') r7,
        (M, r9) \<leftarrow> re_M r8, r10 \<leftarrow> lit (CHR '':'') r9,
        (S, r11) \<leftarrow> re_S r10]"

text \<open>\<open>int(g)\<close> on a matched group: digits, after an optional blank (the day).\<close>

definition digit_val :: "char \<Rightarrow> nat" where
  "digit_val c = of_char c - 48"

definition nat_of_digits :: "string \<Rightarrow> nat" where
  "nat_of_digits s = foldl (\<lambda>n c. 10 * n + digit_val c) 0 s"

definition py_int :: "string \<Rightarrow> nat" where
  "py_int g = nat_of_digits (strip g)"

definition is_leap :: "nat \<Rightarrow> bool" where
  "is_leap y \<longleftrightarrow> y mod 4 = 0 \<and> (y mod 100 \<noteq> 0 \<or> y mod 400 = 0)"

definition days_in_month :: "nat \<Rightarrow> nat \<Rightarrow> nat" where
  "days_in_month y m =
     (if m = 2 \<and> is_leap y then 29 else [0, 31, 28, 31, 30, 31, 30, 31, 31, 30, 31, 30, 31] ! m)"

text \<open>The checks of the \<open>datetime\<close> constructor: ValueError for a field out of range.\<close>

definition make_datetime :: "nat \<Rightarrow> nat \<Rightarrow> nat \<Rightarrow> nat \<Rightarrow> nat \<Rightarrow> nat \<Rightarrow> error + datetime" where
  "make_datetime y mo d h mi s =
     (if 1 \<le> y \<and> y \<le> 9999 \<and> 1 \<le> mo \<and> mo \<le> 12 \<and> 1 \<le> d \<and> d \<le> days_in_month y mo
         \<and> h \<le> 23 \<and> mi \<le> 59 \<and> s \<le> 59
      then Inr \<lparr>year = y, month = mo, day = d, hour = h, minute = mi, second = s\<rparr>
      else Inl ValueError)"

text \<open>
  \<open>datetime.strptime(date, "%Y-%m-%d %H:%M:%S")\<close>: ValueError when the expression does
  not match, when input is left after the match ("unconverted data remains"), or when
  the fields do not make a date and a time.
\<close>

definition strptime :: "string \<Rightarrow> error + datetime" where
  "strptime data_string =
     (case strptime_match data_string of
        [] \<Rightarrow> Inl ValueError
      | ((Y, m, d, H, M, S), rest) # _ \<Rightarrow>
          if rest \<noteq> [] then Inl ValueError
          else make_datetime (py_int Y) (py_int m) (py_int d) (py_int H) (py_int M) (py_int S))"

section \<open>The line-to-record parser\<close>

text \<open>
  \<^verbatim>\<open>
  def parseLogLine(line):
      line = line.strip().split(",")
      date = line[5] + " " + line[6]
      return {
          "lat": float( line[0] ),
          "lon": float( line[1] ),
          "ts" : datetime.strptime(date, "%Y-%m-%d %H:%M:%S").timestamp()
      }
  \<close>
  The record is a dict with string keys and floating-point values. \<open>timestamp\<close> is the
  second parameter: \<open>datetime.timestamp()\<close> of a naive date-time reads it in the local
  time zone of the platform and returns the POSIX time as a float, or raises where the
  conversion leaves the range the platform supports (the first day of year 1 is such a
  date in every time zone).
\<close>

definition parseLogLine ::
  "(string \<Rightarrow> 'f) \<Rightarrow> (datetime \<Rightarrow> error + 'f) \<Rightarrow> string \<Rightarrow> error + (string \<rightharpoonup> 'f)" where
  "parseLogLine strtod timestamp line0 =
     (let line = split_comma (strip line0) in
      bind_e (getitem line 5) (\<lambda>l5.
      bind_e (getitem line 6) (\<lambda>l6.
      let date = l5 @ '' '' @ l6 in
      bind_e (getitem line 0) (\<lambda>l0.
      bind_e (py_float strtod l0) (\<lambda>lat.
      bind_e (getitem line 1) (\<lambda>l1.
      bind_e (py_float strtod l1) (\<lambda>lon.
      bind_e (strptime date) (\<lambda>dt.
      bind_e (timestamp dt) (\<lambda>ts.
      Inr [''lat'' \<mapsto> lat, ''lon'' \<mapsto> lon, ''ts'' \<mapsto> ts])))))))))"

section \<open>The notebook's pipelines\<close>

text \<open>
  An RDD is modelled by the list of its elements, in the order \<open>collect()\<close> returns
  them. \<open>filter\<close> and \<open>map\<close> with a function that raises make the job fail with that
  error.
\<close>

fun rdd_map :: "('a \<Rightarrow> error + 'b) \<Rightarrow> 'a list \<Rightarrow> error + 'b list" where
  "rdd_map f [] = Inr []"
| "rdd_map f (x # xs) = bind_e (f x) (\<lambda>y. bind_e (rdd_map f xs) (\<lambda>ys. Inr (y # ys)))"

fun rdd_filter :: "('a \<Rightarrow> error + bool) \<Rightarrow> 'a list \<Rightarrow> error + 'a list" where
  "rdd_filter p [] = Inr []"
| "rdd_filter p (x # xs) =
     bind_e (p x) (\<lambda>b. bind_e (rdd_filter p xs) (\<lambda>ys. Inr (if b then x # ys else ys)))"

text \<open>\<open>linesRDD = rdd1.filter( notTraceMetadata )\<close>; the predicate never raises.\<close>

definition linesRDD :: "string list \<Rightarrow> error + string list" where
  "linesRDD rdd1 = rdd_filter (\<lambda>line. Inr (notTraceMetadata line)) rdd1"

text \<open>\<open>coordinatesRDD = rdd1.filter( notTraceMetadata ).map( parseLogLine )\<close>\<close>

definition coordinatesRDD ::
  "(string \<Rightarrow> 'f) \<Rightarrow> (datetime \<Rightarrow> error + 'f) \<Rightarrow> string list
     \<Rightarrow> error + (string \<rightharpoonup> 'f) list" where
  "coordinatesRDD strtod timestamp rdd1 =
     bind_e (linesRDD rdd1) (rdd_map (parseLogLine strtod timestamp))"

text \<open>\<open>timestampsRDD = coordinatesRDD.map( lambda loc: loc['ts'] )\<close>\<close>

definition timestampsRDD :: "(string \<rightharpoonup> 'f) list \<Rightarrow> error + 'f list" where
  "timestampsRDD coordinates = rdd_map (\<lambda>loc. dict_getitem loc ''ts'') coordinates"

text \<open>
  \<open>rdd.min()\<close> is \<open>rdd.reduce(min)\<close>: ValueError on an empty RDD, and otherwise the
  builtin \<open>min(a, b)\<close> folded over the elements (\<open>b\<close> when \<open>b < a\<close>, else \<open>a\<close>).
\<close>

definition py_min :: "'a::linorder \<Rightarrow> 'a \<Rightarrow> 'a" where
  "py_min a b = (if b < a then b else a)"

fun rdd_min :: "'a::linorder list \<Rightarrow> error + 'a" where
  "rdd_min [] = Inl ValueError"
| "rdd_min (x # xs) = Inr (foldl py_min x xs)"

text \<open>\<open>originRDD = coordinatesRDD.filter( lambda loc: loc['ts'] == min_ts )\<close>\<close>

definition originRDD :: "(string \<rightharpoonup> 'f) list \<Rightarrow> 'f \<Rightarrow> error + (string \<rightharpoonup> 'f) list" where
  "originRDD coordinates min_ts =
     rdd_filter (\<lambda>loc. bind_e (dict_getitem loc ''ts'') (\<lambda>t. Inr (t = min_ts))) coordinates"

text \<open>The three steps of the origin cell, from the parsed records.\<close>

definition origin :: "(string \<rightharpoonup> 'f::linorder) list \<Rightarrow> error + (string \<rightharpoonup> 'f) list" where
  "origin coordinates =
     bind_e (timestampsRDD coordinates) (\<lambda>timestamps.
     bind_e (rdd_min timestamps) (\<lambda>min_ts.
     originRDD coordinates min_ts))"

text \<open>The whole cell, from the lines of the log file.\<close>

definition origin_cell ::
  "(string \<Rightarrow> 'f::linorder) \<Rightarrow> (datetime \<Rightarrow> error + 'f) \<Rightarrow> string list
     \<Rightarrow> error + (string \<rightharpoonup> 'f) list" where
  "origin_cell strtod timestamp rdd1 = bind_e (coordinatesRDD strtod timestamp rdd1) origin"

section \<open>Calls against the notebook's state\<close>



section \<open>Well-formed lines and location records\<close>

text \<open>\<open>float(s)\<close> returns a value exactly for these strings.\<close>

definition valid_float :: "string \<Rightarrow> bool" where
  "valid_float s \<longleftrightarrow> float_literal (float_strip s)"

text \<open>\<open>strptime\<close> returns a date-time exactly for these strings.\<close>

definition valid_datetime :: "string \<Rightarrow> bool" where
  "valid_datetime s = (case strptime s of Inl e \<Rightarrow> False | Inr dt \<Rightarrow> True)"

text \<open>
  A well-formed line: seven comma-separated fields, of which the first two are float
  literals and the last two, joined by a blank, a date and time in the fixed format.
\<close>

definition well_formed :: "string \<Rightarrow> bool" where
  "well_formed line =
     (let a = split_comma line in
      length a = 7 \<and> valid_float (a ! 0) \<and> valid_float (a ! 1)
      \<and> valid_datetime (a ! 5 @ '' '' @ a ! 6))"

text \<open>A parsed location record: a dict with the keys lat, lon and ts and no other.\<close>

definition location_record :: "(string \<rightharpoonup> 'f) \<Rightarrow> bool" where
  "location_record loc \<longleftrightarrow> dom loc = {''lat'', ''lon'', ''ts''}"

section \<open>A reference platform\<close>

text \<open>
  To run the model on concrete lines the two parameters are instantiated with exact
  rational values. \<open>decimal_value\<close> reads a plain decimal literal (sign, digits, point,
  digits) without rounding. \<open>utc_timestamp\<close> is \<open>datetime.timestamp()\<close> of a naive
  date-time on a platform whose local time zone is UTC, computed as CPython computes
  it: seconds are counted from the proleptic Gregorian ordinal of the day;
  \<open>local(u)\<close> is the local wall time of the instant \<open>u\<close>, a ValueError when its year is
  outside 1 to 9999; and \<open>local_to_seconds\<close> solves \<open>local(u) = t\<close> for \<open>u\<close>, probing the
  instant one day earlier to tell a repeated wall time from a plain one.
\<close>

definition decimal_value :: "string \<Rightarrow> rat" where
  "decimal_value s =
     (let u = drop_sign s; ip = takeWhile is_digit u;
          fp = takeWhile is_digit (drop 1 (dropWhile is_digit u));
          v = of_nat (nat_of_digits (ip @ fp)) / 10 ^ length fp
      in if take 1 s = ''-'' then - v else v)"

definition days_before_year :: "nat \<Rightarrow> nat" where
  "days_before_year y = (y - 1) * 365 + (y - 1) div 4 - (y - 1) div 100 + (y - 1) div 400"

definition days_before_month :: "nat \<Rightarrow> nat \<Rightarrow> nat" where
  "days_before_month y m =
     [0, 0, 31, 59, 90, 120, 151, 181, 212, 243, 273, 304, 334] ! m
     + (if m > 2 \<and> is_leap y then 1 else 0)"

definition toordinal :: "datetime \<Rightarrow> nat" where
  "toordinal dt = days_before_year (year dt) + days_before_month (year dt) (month dt) + day dt"

definition utc_to_seconds :: "datetime \<Rightarrow> int" where
  "utc_to_seconds dt =
     ((int (toordinal dt) * 24 + int (hour dt)) * 60 + int (minute dt)) * 60 + int (second dt)"

text \<open>
  The days 0001-01-01 and 9999-12-31 have the ordinals 1 and 3652059; in the zone UTC
  the wall time of an instant is the instant.
\<close>

definition utc_local :: "int \<Rightarrow> error + int" where
  "utc_local u =
     (if 1 \<le> u div 86400 \<and> u div 86400 \<le> 3652059 then Inr u else Inl ValueError)"

definition local_to_seconds_rest ::
  "(int \<Rightarrow> error + int) \<Rightarrow> int \<Rightarrow> int \<Rightarrow> int \<Rightarrow> int \<Rightarrow> error + int" where
  "local_to_seconds_rest local t t1 u1 b =
     (let u2 = t - b in
      bind_e (local u2) (\<lambda>t2.
      if t2 = t then Inr u2 else if t1 = t then Inr u1 else Inr (max u1 u2)))"

definition local_to_seconds :: "(int \<Rightarrow> error + int) \<Rightarrow> datetime \<Rightarrow> error + int" where
  "local_to_seconds local dt =
     (let t = utc_to_seconds dt in
      bind_e (local t) (\<lambda>lt.
      let a = lt - t; u1 = t - a in
      bind_e (local u1) (\<lambda>t1.
      if t1 = t
      then (let u2 = u1 - 24 * 3600 in
            bind_e (local u2) (\<lambda>lt2.
            let b = lt2 - u2 in
            if a = b then Inr u1 else local_to_seconds_rest local t t1 u1 b))
      else local_to_seconds_rest local t t1 u1 (t1 - u1))))"

text \<open>The epoch 1970-01-01 is the day of ordinal 719163.\<close>

definition utc_timestamp :: "datetime \<Rightarrow> error + rat" where
  "utc_timestamp dt =
     bind_e (local_to_seconds utc_local dt) (\<lambda>seconds.
     Inr (of_int (seconds - 719163 * 24 * 3600)))"

section \<open>Sample data\<close>

text \<open>
  A point of a Geolife log, the same point after a blank, a point that differs from it
  in the third, fourth and fifth fields only, two well-formed lines dated on the first
  day of year 1, the six header lines of a log file, the point with whitespace on both
  sides, and three location records.
\<close>

definition sample_line :: string where
  "sample_line = ''39.984702,116.318417,0,492,39744.1201851852,2008-10-23,02:53:04''"

definition padded_line :: string where
  "padded_line = '' 39.984702,116.318417,0,492,39744.1201851852,2008-10-23,02:53:04''"




definition header_lines :: "string list" where
  "header_lines = [''Geolife trajectory'', ''WGS 84'', ''Altitude is in Feet'', ''Reserved 3'',
     ''0,2,255,My Track,0,0,2,8421376'', ''0'']"

definition spaced_line :: string where
  "spaced_line = [CHR 0x09] @ '' 39.984702,116.318417,0,492,39744.1201851852,2008-10-23,02:53:04 ''
     @ [CHR 0x0D]"

definition sample_records :: "(string \<rightharpoonup> rat) list" where
  "sample_records =
     [[''lat'' \<mapsto> 39, ''lon'' \<mapsto> 116, ''ts'' \<mapsto> 30],
      [''lat'' \<mapsto> 40, ''lon'' \<mapsto> 117, ''ts'' \<mapsto> 10],
      [''lat'' \<mapsto> 41, ''lon'' \<mapsto> 118, ''ts'' \<mapsto> 20]]"

section \<open>Facts about split and strip\<close>

lemma split_from_cur:
  "split_from cur s = (cur @ hd (split_from [] s)) # tl (split_from [] s)"
proof (induction s arbitrary: cur)
  case Nil
  show ?case by simp
next
  case (Cons c cs)
  show ?case
  proof (cases "c = CHR '',''")
    case True
    then show ?thesis by simp
  next
    case False
    have "split_from (cur @ [c]) cs = (cur @ c # hd (split_from [] cs)) # tl (split_from [] cs)"
      using Cons.IH [of "cur @ [c]"] by simp
    moreover have "split_from [c] cs = (c # hd (split_from [] cs)) # tl (split_from [] cs)"
      using Cons.IH [of "[c]"] by simp
    ultimately show ?thesis using False by simp
  qed
qed

lemma split_comma_Nil: "split_comma [] = [[]]"
  by (simp add: split_comma_def)

lemma split_comma_Cons:
  "split_comma (c # cs) =
     (if c = CHR '','' then [] # split_comma cs
      else (c # hd (split_comma cs)) # tl (split_comma cs))"
  using split_from_cur [of "[c]" cs] by (simp add: split_comma_def)

lemma split_comma_not_Nil: "split_comma s \<noteq> []"
  by (cases s) (auto simp: split_comma_Nil split_comma_Cons)

lemma length_split_comma: "length (split_comma s) = Suc (count_list s (CHR '',''))"
proof (induction s)
  case Nil
  show ?case by (simp add: split_comma_Nil)
next
  case (Cons c cs)
  have "length (tl (split_comma cs)) = count_list cs (CHR '','')"
    using Cons.IH by simp
  then show ?case using Cons.IH by (simp add: split_comma_Cons)
qed

lemma comma_not_space: "\<not> isspace (CHR '','')"
  by (simp add: isspace_def)

lemma count_comma_dropWhile: "count_list (dropWhile isspace s) (CHR '','') = count_list s (CHR '','')"
  by (induction s) (auto simp: comma_not_space)

lemma count_list_rev: "count_list (rev s) x = count_list s x"
  by (induction s) auto

lemma count_comma_strip: "count_list (strip s) (CHR '','') = count_list s (CHR '','')"
  by (simp add: strip_def rstrip_def lstrip_def count_list_rev count_comma_dropWhile)

lemma length_split_strip: "length (split_comma (strip s)) = length (split_comma s)"
  by (simp add: length_split_comma count_comma_strip)

text \<open>Stripping on the left only touches the first field.\<close>

lemma split_comma_lstrip:
  "split_comma (lstrip s) = lstrip (hd (split_comma s)) # tl (split_comma s)"
proof (induction s)
  case Nil
  show ?case by (simp add: lstrip_def split_comma_Nil)
next
  case (Cons c cs)
  show ?case
  proof (cases "isspace c")
    case True
    then have "c \<noteq> CHR '',''" using comma_not_space by auto
    with True Cons.IH show ?thesis by (simp add: lstrip_def split_comma_Cons)
  next
    case False
    then show ?thesis by (simp add: lstrip_def split_comma_Cons)
  qed
qed

lemma split_comma_snoc:
  "split_comma (s @ [c]) =
     (if c = CHR '','' then split_comma s @ [[]]
      else butlast (split_comma s) @ [last (split_comma s) @ [c]])"
proof (induction s)
  case Nil
  show ?case by (simp add: split_comma_Nil split_comma_Cons)
next
  case (Cons a s)
  obtain f fs where X: "split_comma s = f # fs"
    using split_comma_not_Nil [of s] by (cases "split_comma s") auto
  show ?case using Cons.IH X by (cases fs) (auto simp: split_comma_Cons)
qed

lemma split_comma_rev: "split_comma (rev s) = rev (map rev (split_comma s))"
proof (induction s)
  case Nil
  show ?case by (simp add: split_comma_Nil)
next
  case (Cons c cs)
  obtain f fs where X: "split_comma cs = f # fs"
    using split_comma_not_Nil [of cs] by (cases "split_comma cs") auto
  show ?case using Cons.IH X by (simp add: split_comma_snoc split_comma_Cons butlast_append)
qed

text \<open>Stripping on the right only touches the last field.\<close>

lemma split_comma_rstrip:
  "split_comma (rstrip s) = butlast (split_comma s) @ [rstrip (last (split_comma s))]"
proof -
  obtain ys l where X: "split_comma s = ys @ [l]"
    using split_comma_not_Nil [of s] by (cases "split_comma s" rule: rev_cases) auto
  have "split_comma (rstrip s) = rev (map rev (split_comma (lstrip (rev s))))"
    by (simp add: rstrip_def lstrip_def split_comma_rev)
  also have "\<dots> = rev (map rev (lstrip (hd (split_comma (rev s))) # tl (split_comma (rev s))))"
    by (simp only: split_comma_lstrip)
  also have "\<dots> = butlast (split_comma s) @ [rstrip (last (split_comma s))]"
    by (simp add: split_comma_rev X rstrip_def lstrip_def rev_map)
  finally show ?thesis .
qed

lemma list7: "length xs = 7 \<Longrightarrow> \<exists>a b c d e f g. xs = [a, b, c, d, e, f, g]"
  by (auto simp: length_Suc_conv eval_nat_numeral)

text \<open>The fields of a stripped seven-field line, in terms of the fields of the line.\<close>

lemma split_comma_strip7:
  assumes "split_comma s = [a, b, c, d, e, f, g]"
  shows "split_comma (strip s) = [lstrip a, b, c, d, e, f, rstrip g]"
  using assms by (simp add: strip_def split_comma_rstrip split_comma_lstrip)

section \<open>Facts about strptime, float and the parser\<close>

lemma cls1_D: "(x, r') \<in> set (cls1 A r) \<Longrightarrow> r = x @ r' \<and> x \<noteq> [] \<and> last x \<in> set A"
  by (auto simp: cls1_def split: list.splits if_splits)

lemma cls2_D: "(x, r') \<in> set (cls2 A B r) \<Longrightarrow> r = x @ r' \<and> x \<noteq> [] \<and> last x \<in> set B"
  by (auto simp: cls2_def split: list.splits if_splits)

lemma lit_D: "r' \<in> set (lit c r) \<Longrightarrow> r = c # r'"
  by (auto simp: lit_def split: list.splits if_splits)

lemma re_Y_D: "(x, r') \<in> set (re_Y r) \<Longrightarrow> suffix r' r"
  by (auto simp: re_Y_def suffix_def split: list.splits if_splits)

lemma re_spaces_D: "r' \<in> set (re_spaces r) \<Longrightarrow> suffix r' r"
  by (auto simp: re_spaces_def suffix_drop)

lemma re_m_D: "(x, r') \<in> set (re_m r) \<Longrightarrow> suffix r' r"
  by (auto simp: re_m_def suffix_def dest!: cls1_D cls2_D)

lemma re_d_D: "(x, r') \<in> set (re_d r) \<Longrightarrow> suffix r' r"
  by (auto simp: re_d_def suffix_def dest!: cls1_D cls2_D)

lemma re_H_D: "(x, r') \<in> set (re_H r) \<Longrightarrow> suffix r' r"
  by (auto simp: re_H_def suffix_def dest!: cls1_D cls2_D)

lemma re_M_D: "(x, r') \<in> set (re_M r) \<Longrightarrow> suffix r' r"
  by (auto simp: re_M_def suffix_def dest!: cls1_D cls2_D)

lemma re_S_D: "(x, r') \<in> set (re_S r) \<Longrightarrow> r = x @ r' \<and> x \<noteq> [] \<and> is_digit (last x)"
  by (auto simp: re_S_def is_digit_def dest!: cls1_D cls2_D)

lemma lit_suffix: "r' \<in> set (lit c r) \<Longrightarrow> suffix r' r"
  by (auto simp: suffix_def dest!: lit_D)

lemma strptime_match_D:
  assumes "(g, r) \<in> set (strptime_match s)"
  shows "\<exists>p x. s = p @ x @ r \<and> x \<noteq> [] \<and> is_digit (last x)"
proof -
  from assms obtain Y r1 r2 m r3 r4 d r5 r6 H r7 r8 M r9 r10 S where
    1: "(Y, r1) \<in> set (re_Y s)" and 2: "r2 \<in> set (lit (CHR ''-'') r1)" and
    3: "(m, r3) \<in> set (re_m r2)" and 4: "r4 \<in> set (lit (CHR ''-'') r3)" and
    5: "(d, r5) \<in> set (re_d r4)" and 6: "r6 \<in> set (re_spaces r5)" and
    7: "(H, r7) \<in> set (re_H r6)" and 8: "r8 \<in> set (lit (CHR '':'') r7)" and
    9: "(M, r9) \<in> set (re_M r8)" and 10: "r10 \<in> set (lit (CHR '':'') r9)" and
    11: "(S, r) \<in> set (re_S r10)"
    by (auto simp: strptime_match_def)
  have "suffix r10 s"
    using re_Y_D [OF 1] lit_suffix [OF 2] re_m_D [OF 3] lit_suffix [OF 4] re_d_D [OF 5]
      re_spaces_D [OF 6] re_H_D [OF 7] lit_suffix [OF 8] re_M_D [OF 9] lit_suffix [OF 10]
    by (meson suffix_order.trans)
  then obtain p where "s = p @ r10" by (auto simp: suffix_def)
  with re_S_D [OF 11] show ?thesis by auto
qed

lemma strptime_last_digit:
  assumes "strptime s = Inr dt"
  shows "s \<noteq> [] \<and> is_digit (last s)"
proof -
  from assms obtain g rest ms where M: "strptime_match s = (g, rest) # ms"
    by (cases "strptime_match s") (auto simp: strptime_def)
  with assms have "rest = []"
    by (auto simp: strptime_def split: if_splits prod.splits)
  with M have "(g, []) \<in> set (strptime_match s)" by simp
  from strptime_match_D [OF this] show ?thesis by auto
qed

lemma digit_not_space: "is_digit c \<Longrightarrow> \<not> isspace c"
  by (auto simp: is_digit_def isspace_def)

lemma rstrip_id: "s \<noteq> [] \<Longrightarrow> \<not> isspace (last s) \<Longrightarrow> rstrip s = s"
  by (cases s rule: rev_cases) (auto simp: rstrip_def)

lemma strptime_rstrip:
  assumes "strptime (a @ '' '' @ b) = Inr dt"
  shows "rstrip b = b"
proof -
  have L: "is_digit (last (a @ '' '' @ b))"
    using strptime_last_digit [OF assms] by simp
  have "b \<noteq> []"
  proof
    assume "b = []"
    with L show False by (simp add: is_digit_def)
  qed
  with L show ?thesis by (simp add: rstrip_id digit_not_space)
qed


lemma float_literal_hd:
  assumes "float_literal t"
  shows "t \<noteq> [] \<and> \<not> isspace (hd t)"
proof (cases t)
  case Nil
  with assms show ?thesis
    by (simp add: float_literal_def inf_or_nan_def ci_match_def decimal_ok_def drop_sign_def)
next
  case (Cons c cs)
  have "\<not> isspace c"
  proof
    assume "isspace c"
    then have sp: "c \<noteq> CHR ''_''" "c \<noteq> CHR ''+''" "c \<noteq> CHR ''-''" "c \<noteq> CHR ''.''" "\<not> is_digit c"
      "c \<noteq> CHR ''i''" "c \<noteq> CHR ''I''" "c \<noteq> CHR ''n''" "c \<noteq> CHR ''N''"
      by (auto simp: isspace_def is_digit_def)
    from assms Cons sp show False
      by (auto simp: float_literal_def inf_or_nan_def ci_match_def decimal_ok_def drop_sign_def
          Let_def list_all2_Cons1)
  qed
  with Cons show ?thesis by simp
qed

lemma rev_dropWhile_rev_hd:
  assumes "rev (dropWhile P (rev xs)) = ys" and "ys \<noteq> []"
  shows "xs \<noteq> [] \<and> hd xs = hd ys"
proof -
  have "xs = rev (dropWhile P (rev xs)) @ rev (takeWhile P (rev xs))"
    by (metis rev_append rev_rev_ident takeWhile_dropWhile_id)
  then have "xs = ys @ rev (takeWhile P (rev xs))" using assms(1) by simp
  with assms(2) show ?thesis by (metis hd_append2 append_is_Nil_conv)
qed

lemma dropWhile_wider:
  assumes "\<And>c. F c \<Longrightarrow> P c"
  shows "dropWhile F s = t \<Longrightarrow> t \<noteq> [] \<Longrightarrow> \<not> P (hd t) \<Longrightarrow> dropWhile P s = t"
  using assms by (induction s) (auto split: if_splits)

lemma float_space_isspace: "float_space c \<Longrightarrow> isspace c"
  by (auto simp: float_space_def isspace_def)

lemma float_strip_lstrip:
  assumes "float_literal (float_strip s)"
  shows "float_strip (lstrip s) = float_strip s"
proof -
  define t where "t = dropWhile float_space s"
  have fs: "float_strip s = rev (dropWhile float_space (rev t))"
    by (simp add: float_strip_def t_def)
  from float_literal_hd [OF assms]
  have ne: "float_strip s \<noteq> []" and hd: "\<not> isspace (hd (float_strip s))" by auto
  from rev_dropWhile_rev_hd [OF fs [symmetric] ne]
  have t: "t \<noteq> []" "hd t = hd (float_strip s)" by auto
  have "dropWhile isspace s = t"
    using dropWhile_wider [of float_space isspace s t] float_space_isspace t hd
    by (simp add: t_def)
  moreover have "dropWhile float_space t = t"
    using t hd float_space_isspace by (cases t) auto
  ultimately have "float_strip (lstrip s) = rev (dropWhile float_space (rev t))"
    by (simp add: float_strip_def lstrip_def)
  with fs show ?thesis by simp
qed

lemma py_float_lstrip:
  assumes "py_float strtod s = Inr v"
  shows "py_float strtod (lstrip s) = Inr v"
proof -
  from assms have "float_literal (float_strip s)"
    by (auto simp: py_float_def Let_def split: if_splits)
  from float_strip_lstrip [OF this] assms show ?thesis
    by (simp add: py_float_def)
qed

lemma parseLogLine_fields:
  assumes "split_comma line = [a, b, c, d, e, f, g]"
  shows "parseLogLine strtod timestamp line =
     bind_e (py_float strtod (lstrip a)) (\<lambda>lat.
     bind_e (py_float strtod b) (\<lambda>lon.
     bind_e (strptime (f @ '' '' @ rstrip g)) (\<lambda>dt.
     bind_e (timestamp dt) (\<lambda>ts.
     Inr [''lat'' \<mapsto> lat, ''lon'' \<mapsto> lon, ''ts'' \<mapsto> ts]))))"
  by (simp add: parseLogLine_def split_comma_strip7 [OF assms] getitem_def bind_e_def Let_def
      cong: sum.case_cong)

lemma parseLogLine_record:
  assumes "split_comma line = [a, b, c, d, e, f, g]"
    and "py_float strtod a = Inr la" and "py_float strtod b = Inr lo"
    and "strptime (f @ '' '' @ g) = Inr dt"
  shows "parseLogLine strtod timestamp line =
     bind_e (timestamp dt) (\<lambda>ts. Inr [''lat'' \<mapsto> la, ''lon'' \<mapsto> lo, ''ts'' \<mapsto> ts])"
  using assms(2-4) py_float_lstrip [OF assms(2)] strptime_rstrip [OF assms(4)]
  by (simp add: parseLogLine_fields [OF assms(1)] bind_e_def)

section \<open>Facts about the pipelines\<close>

lemma linesRDD_eq: "linesRDD rdd1 = Inr (filter notTraceMetadata rdd1)"
  by (induction rdd1) (simp_all add: linesRDD_def bind_e_def)

lemma notTraceMetadata_eq: "notTraceMetadata line \<longleftrightarrow> length (split_comma line) = 7"
  by (simp add: notTraceMetadata_def)

lemma py_float_valid:
  "py_float strtod s =
     (if valid_float s then Inr (strtod (filter (\<lambda>c. c \<noteq> CHR ''_'') (float_strip s)))
      else Inl ValueError)"
  by (simp add: py_float_def valid_float_def)

lemma timestampsRDD_all:
  "\<forall>loc \<in> set cs. ''ts'' \<in> dom loc \<Longrightarrow>
     timestampsRDD cs = Inr (map (\<lambda>loc. the (loc ''ts'')) cs)"
  by (induction cs) (auto simp: timestampsRDD_def dict_getitem_def bind_e_def)

lemma originRDD_all:
  "\<forall>loc \<in> set cs. ''ts'' \<in> dom loc \<Longrightarrow>
     originRDD cs m = Inr (filter (\<lambda>loc. the (loc ''ts'') = m) cs)"
  by (induction cs) (auto simp: originRDD_def dict_getitem_def bind_e_def)

lemma py_min_min: "py_min a b = min a b"
  by (auto simp: py_min_def min_def)

lemma foldl_py_min: "foldl py_min x xs = Min (set (x # xs))"
proof -
  have "(\<lambda>b a. py_min a b) = (min :: 'a \<Rightarrow> 'a \<Rightarrow> 'a)"
    by (intro ext) (simp add: py_min_min min.commute)
  then show ?thesis
    using Min.set_eq_fold [of x xs] by (simp add: foldl_conv_fold)
qed

lemma filter_unique:
  "distinct (map f xs) \<Longrightarrow> x \<in> set xs \<Longrightarrow> filter (\<lambda>y. f y = f x) xs = [x]"
proof (induction xs)
  case Nil
  then show ?case by simp
next
  case (Cons a xs)
  show ?case
  proof (cases "x = a")
    case True
    from Cons.prems(1) have "f a \<notin> f ` set xs" by simp
    then have "\<forall>y \<in> set xs. f y \<noteq> f a"
      by (metis imageI)
    then have "filter (\<lambda>y. f y = f a) xs = []"
      by (simp add: filter_empty_conv)
    with True show ?thesis by simp
  next
    case False
    with Cons.prems have "x \<in> set xs" "f a \<noteq> f x" by auto
    with Cons show ?thesis by simp
  qed
qed

lemma well_formed_record:
  assumes "well_formed line"
  shows "\<exists>a b c d e f g dt. split_comma line = [a, b, c, d, e, f, g]
     \<and> strptime (f @ '' '' @ g) = Inr dt
     \<and> parseLogLine strtod timestamp line =
         bind_e (timestamp dt) (\<lambda>ts.
         Inr [''lat'' \<mapsto> strtod (filter (\<lambda>c. c \<noteq> CHR ''_'') (float_strip a)),
              ''lon'' \<mapsto> strtod (filter (\<lambda>c. c \<noteq> CHR ''_'') (float_strip b)),
              ''ts'' \<mapsto> ts])"
proof -
  from assms have len: "length (split_comma line) = 7"
    by (simp add: well_formed_def Let_def)
  from list7 [OF len] obtain a b c d e f g where
    fs: "split_comma line = [a, b, c, d, e, f, g]" by blast
  from assms fs have v: "valid_float a" "valid_float b" "valid_datetime (f @ '' '' @ g)"
    by (simp_all add: well_formed_def)
  from v(3) obtain dt where dt: "strptime (f @ '' '' @ g) = Inr dt"
    by (auto simp: valid_datetime_def split: sum.splits)
  have "parseLogLine strtod timestamp line =
      bind_e (timestamp dt) (\<lambda>ts.
      Inr [''lat'' \<mapsto> strtod (filter (\<lambda>c. c \<noteq> CHR ''_'') (float_strip a)),
           ''lon'' \<mapsto> strtod (filter (\<lambda>c. c \<noteq> CHR ''_'') (float_strip b)),
           ''ts'' \<mapsto> ts])"
    using v(1,2) by (intro parseLogLine_record [OF fs _ _ dt]) (simp_all add: py_float_valid)
  with fs dt show ?thesis by blast
qed

text \<open>A well-formed line whose date-time the platform converts gets a record.\<close>

lemma well_formed_returns:
  assumes "well_formed line"
    and "strptime (split_comma line ! 5 @ '' '' @ split_comma line ! 6) = Inr dt"
    and "timestamp dt = Inr t"
  shows "\<exists>r. parseLogLine strtod timestamp line = Inr r"
proof -
  from well_formed_record [OF assms(1), of strtod timestamp]
  obtain a b c d e f g dt' la lo where
    fs: "split_comma line = [a, b, c, d, e, f, g]" and
    dt': "strptime (f @ '' '' @ g) = Inr dt'" and
    p: "parseLogLine strtod timestamp line =
        bind_e (timestamp dt') (\<lambda>ts. Inr [''lat'' \<mapsto> la, ''lon'' \<mapsto> lo, ''ts'' \<mapsto> ts])"
    by blast
  from assms(2) fs dt' have "dt' = dt" by simp
  with p assms(3) show ?thesis by (simp add: bind_e_def)
qed

text \<open>\<open>float\<close> and \<open>strptime\<close> raise nothing but ValueError.\<close>

lemma py_float_error: "py_float strtod s = Inl e \<Longrightarrow> e = ValueError"
  by (auto simp: py_float_def Let_def split: if_splits)

lemma strptime_error: "strptime s = Inl e \<Longrightarrow> e = ValueError"
  by (auto simp: strptime_def make_datetime_def split: list.splits prod.splits if_splits)

lemma utc_local_error: "utc_local u = Inl e \<Longrightarrow> e = ValueError"
  by (auto simp: utc_local_def split: if_splits)

lemma local_to_seconds_rest_error:
  "local_to_seconds_rest utc_local t t1 u1 b = Inl e \<Longrightarrow> e = ValueError"
  by (auto simp: local_to_seconds_rest_def Let_def bind_e_def
      split: sum.splits if_splits dest: utc_local_error)

lemma utc_timestamp_error: "utc_timestamp dt = Inl e \<Longrightarrow> e = ValueError"
  by (auto simp: utc_timestamp_def local_to_seconds_def Let_def bind_e_def
      split: sum.splits if_splits dest: utc_local_error local_to_seconds_rest_error)

lemma sample_datetime:
  "strptime ''2008-10-23 02:53:04'' =
     Inr \<lparr>year = 2008, month = 10, day = 23, hour = 2, minute = 53, second = 4\<rparr>"
  by code_simp

lemma sample_seconds:
  "local_to_seconds utc_local
     \<lparr>year = 2008, month = 10, day = 23, hour = 2, minute = 53, second = 4\<rparr>
     = Inr 63360413584"
  by (simp add: local_to_seconds_def local_to_seconds_rest_def utc_local_def utc_to_seconds_def
      toordinal_def days_before_year_def days_before_month_def is_leap_def bind_e_def Let_def)

lemma sample_timestamp:
  "utc_timestamp \<lparr>year = 2008, month = 10, day = 23, hour = 2, minute = 53, second = 4\<rparr>
     = Inr 1224730384"
  by (simp only: utc_timestamp_def sample_seconds bind_e_def sum.case) simp

lemma year_one_datetime:
  "strptime ''0001-01-01 00:00:00'' =
     Inr \<lparr>year = 1, month = 1, day = 1, hour = 0, minute = 0, second = 0\<rparr>"
  by code_simp



section \<open>The claims\<close>

text \<open>
  Claim C2. For every string, \<open>notTraceMetadata\<close> returns true if and only if the
  comma split of the string has exactly seven fields, that is, if and only if the string
  has exactly six commas.
\<close>

theorem notTraceMetadata_iff_seven_fields:
  "(notTraceMetadata line \<longleftrightarrow> length (split_comma line) = 7)
   \<and> (length (split_comma line) = 7 \<longleftrightarrow> count_list line (CHR '','') = 6)"
  by (simp add: notTraceMetadata_def length_split_comma)

text \<open>
  Claim C6. Filtering a list of lines with the validity predicate never fails, and its
  result is the list of the lines with exactly seven comma-separated fields, in their
  original order; the other lines are dropped without any error.
\<close>

theorem linesRDD_keeps_valid_lines:
  "linesRDD rdd1 = Inr (filter (\<lambda>line. length (split_comma line) = 7) rdd1)
   \<and> subseq (filter (\<lambda>line. length (split_comma line) = 7) rdd1) rdd1"
  by (simp add: linesRDD_eq notTraceMetadata_eq [abs_def])

text \<open>
  Claim C8. Stripping a line never changes the number of its commas; so when
  \<open>notTraceMetadata\<close> accepts a line, the stripped line that \<open>parseLogLine\<close> splits has
  seven fields too, each access at the indices 0, 1, 5 and 6 yields its field, and
  \<open>parseLogLine\<close> does not raise IndexError (\<open>timestamp()\<close> raises none either).
\<close>

theorem strip_keeps_seven_fields:
  assumes "notTraceMetadata line"
    and "\<forall>dt. timestamp dt \<noteq> Inl IndexError"
  shows "count_list (strip line) (CHR '','') = count_list line (CHR '','')
     \<and> length (split_comma (strip line)) = 7
     \<and> (\<forall>i \<in> {0, 1, 5, 6}.
          getitem (split_comma (strip line)) i = Inr (split_comma (strip line) ! i))
     \<and> parseLogLine strtod timestamp line \<noteq> Inl IndexError"
proof -
  from assms(1) have len: "length (split_comma line) = 7"
    by (simp add: notTraceMetadata_eq)
  from list7 [OF len] obtain a b c d e f g where
    fs: "split_comma line = [a, b, c, d, e, f, g]" by blast
  have "parseLogLine strtod timestamp line \<noteq> Inl IndexError"
    using assms(2)
    by (auto simp: parseLogLine_fields [OF fs] bind_e_def split: sum.splits
        dest: py_float_error strptime_error)
  with len show ?thesis
    by (simp add: length_split_strip count_comma_strip getitem_def)
qed

text \<open>
  The theorem of C8 on a point with a tab and a blank before it, a blank and a carriage
  return after it.
\<close>

theorem strip_keeps_seven_fields_witness:
  "notTraceMetadata spaced_line
   \<and> length (split_comma (strip spaced_line)) = 7
   \<and> getitem (split_comma (strip spaced_line)) 0 = Inr ''39.984702''
   \<and> getitem (split_comma (strip spaced_line)) 6 = Inr ''02:53:04''
   \<and> parseLogLine decimal_value utc_timestamp spaced_line \<noteq> Inl IndexError"
proof -
  have a: "notTraceMetadata spaced_line" by code_simp
  have b: "split_comma (strip spaced_line) ! 0 = ''39.984702''"
    "split_comma (strip spaced_line) ! 6 = ''02:53:04''" by code_simp+
  have c: "\<forall>dt. utc_timestamp dt \<noteq> Inl IndexError"
    using utc_timestamp_error by fastforce
  from strip_keeps_seven_fields [OF a c, of decimal_value] a b show ?thesis by simp
qed

text \<open>
  Claim C3. For a line the validity predicate accepts, whose first and second
  comma-separated fields are accepted by \<open>float\<close>, the \<open>lat\<close> and \<open>lon\<close> of the record
  \<open>parseLogLine\<close> returns are the values \<open>float\<close> gives for the first and the second
  field of the line. (The parser reads the fields of the stripped line; \<open>float\<close> ignores
  the whitespace that stripping removes.)
\<close>

theorem parseLogLine_lat_lon:
  assumes "notTraceMetadata line"
    and "py_float strtod (split_comma line ! 0) = Inr la"
    and "py_float strtod (split_comma line ! 1) = Inr lo"
    and "parseLogLine strtod timestamp line = Inr r"
  shows "r ''lat'' = Some la \<and> r ''lon'' = Some lo"
proof -
  from assms(1) have len: "length (split_comma line) = 7"
    by (simp add: notTraceMetadata_eq)
  from list7 [OF len] obtain a b c d e f g where
    fs: "split_comma line = [a, b, c, d, e, f, g]" by blast
  from assms(2,3) fs have fl: "py_float strtod (lstrip a) = Inr la" "py_float strtod b = Inr lo"
    by (simp_all add: py_float_lstrip)
  from assms(4) show ?thesis
    by (auto simp: parseLogLine_fields [OF fs] fl bind_e_def split: sum.splits)
qed

text \<open>The theorem of C3 on a point with a leading blank.\<close>

theorem parseLogLine_lat_lon_witness:
  "notTraceMetadata padded_line
   \<and> py_float decimal_value (split_comma padded_line ! 0) = Inr (decimal_value ''39.984702'')
   \<and> py_float decimal_value (split_comma padded_line ! 1) = Inr (decimal_value ''116.318417'')
   \<and> (\<exists>r. parseLogLine decimal_value utc_timestamp padded_line = Inr r
        \<and> r ''lat'' = Some (decimal_value ''39.984702'')
        \<and> r ''lon'' = Some (decimal_value ''116.318417''))"
proof -
  have a: "notTraceMetadata padded_line" by code_simp
  have v: "valid_float (split_comma padded_line ! 0)" "valid_float (split_comma padded_line ! 1)"
    by code_simp+
  have t: "filter (\<lambda>c. c \<noteq> CHR ''_'') (float_strip (split_comma padded_line ! 0)) = ''39.984702''"
    "filter (\<lambda>c. c \<noteq> CHR ''_'') (float_strip (split_comma padded_line ! 1)) = ''116.318417''"
    by code_simp+
  have b: "py_float decimal_value (split_comma padded_line ! 0) = Inr (decimal_value ''39.984702'')"
    using v(1) t(1) by (simp add: py_float_valid)
  have c: "py_float decimal_value (split_comma padded_line ! 1) = Inr (decimal_value ''116.318417'')"
    using v(2) t(2) by (simp add: py_float_valid)
  have wf: "well_formed padded_line" by code_simp
  have d: "strptime (split_comma padded_line ! 5 @ '' '' @ split_comma padded_line ! 6) =
      Inr \<lparr>year = 2008, month = 10, day = 23, hour = 2, minute = 53, second = 4\<rparr>"
    by code_simp
  from well_formed_returns
    [where timestamp = utc_timestamp and strtod = decimal_value, OF wf d sample_timestamp]
  obtain r where r: "parseLogLine decimal_value utc_timestamp padded_line = Inr r" by blast
  from parseLogLine_lat_lon [OF a b c r] a b c r show ?thesis by blast
qed

text \<open>
  Claim C1, as amended. For a line the validity predicate accepts, whose sixth and
  seventh comma-separated fields joined by one blank parse under
  \<^verbatim>\<open>%Y-%m-%d %H:%M:%S\<close>, the \<open>ts\<close> of the record \<open>parseLogLine\<close> returns is the
  value \<open>timestamp()\<close> returns for that parse. The fifth field (the elapsed days) takes no part: the
  code builds the date string from \<open>line[5]\<close> and \<open>line[6]\<close>, the sixth and seventh
  fields. The fields are those of the line as given; stripping the line first does not
  change the result.
\<close>

theorem parseLogLine_ts_from_date_and_time:
  assumes "notTraceMetadata line"
    and "strptime (split_comma line ! 5 @ '' '' @ split_comma line ! 6) = Inr dt"
    and "parseLogLine strtod timestamp line = Inr r"
  shows "\<exists>t. timestamp dt = Inr t \<and> r ''ts'' = Some t"
proof -
  from assms(1) have len: "length (split_comma line) = 7"
    by (simp add: notTraceMetadata_eq)
  from list7 [OF len] obtain a b c d e f g where
    fs: "split_comma line = [a, b, c, d, e, f, g]" by blast
  from assms(2) fs have dt: "strptime (f @ '' '' @ g) = Inr dt" by simp
  from strptime_rstrip [OF dt] dt have "strptime (f @ '' '' @ rstrip g) = Inr dt" by simp
  with assms(3) show ?thesis
    by (auto simp: parseLogLine_fields [OF fs] bind_e_def split: sum.splits)
qed

text \<open>The theorem of C1 on a point with a leading blank, on the reference platform.\<close>

theorem parseLogLine_ts_from_date_and_time_witness:
  "notTraceMetadata padded_line
   \<and> strptime (split_comma padded_line ! 5 @ '' '' @ split_comma padded_line ! 6) =
       Inr \<lparr>year = 2008, month = 10, day = 23, hour = 2, minute = 53, second = 4\<rparr>
   \<and> (\<exists>r. parseLogLine decimal_value utc_timestamp padded_line = Inr r
        \<and> r ''ts'' = Some 1224730384)"
proof -
  have a: "notTraceMetadata padded_line" by code_simp
  have b: "strptime (split_comma padded_line ! 5 @ '' '' @ split_comma padded_line ! 6) =
      Inr \<lparr>year = 2008, month = 10, day = 23, hour = 2, minute = 53, second = 4\<rparr>"
    by code_simp
  have wf: "well_formed padded_line" by code_simp
  from well_formed_returns
    [where timestamp = utc_timestamp and strtod = decimal_value, OF wf b sample_timestamp]
  obtain r where r: "parseLogLine decimal_value utc_timestamp padded_line = Inr r" by blast
  from parseLogLine_ts_from_date_and_time [OF a b r] have "r ''ts'' = Some 1224730384"
    by (simp add: sample_timestamp)
  with a b r show ?thesis by blast
qed

text \<open>
  Claim C1 as stated fails on a Geolife point: the line is accepted, its date and time
  fields parse and \<open>parseLogLine\<close> returns a record with \<open>ts = 1224730384\<close>, but the
  fifth, sixth and seventh fields concatenated (with or without blanks between them)
  do not parse under the format, so no timestamp comes from them.
\<close>

theorem ts_with_fifth_field_counterexample:
  "notTraceMetadata sample_line
   \<and> valid_datetime (split_comma sample_line ! 5 @ '' '' @ split_comma sample_line ! 6)
   \<and> (\<exists>r. parseLogLine decimal_value utc_timestamp sample_line = Inr r
        \<and> r ''ts'' = Some 1224730384)
   \<and> strptime (split_comma sample_line ! 4 @ split_comma sample_line ! 5
        @ split_comma sample_line ! 6) = Inl ValueError
   \<and> strptime (split_comma sample_line ! 4 @ '' '' @ split_comma sample_line ! 5 @ '' ''
        @ split_comma sample_line ! 6) = Inl ValueError"
proof -
  have a: "notTraceMetadata sample_line" by code_simp
  have fs: "split_comma sample_line = [''39.984702'', ''116.318417'', ''0'', ''492'',
      ''39744.1201851852'', ''2008-10-23'', ''02:53:04'']" by code_simp
  have b: "valid_datetime (split_comma sample_line ! 5 @ '' '' @ split_comma sample_line ! 6)"
    by code_simp
  have v: "valid_float ''39.984702''" "valid_float ''116.318417''" by code_simp+
  have "parseLogLine decimal_value utc_timestamp sample_line =
      bind_e (utc_timestamp
          \<lparr>year = 2008, month = 10, day = 23, hour = 2, minute = 53, second = 4\<rparr>) (\<lambda>ts.
      Inr [''lat'' \<mapsto> decimal_value (filter (\<lambda>c. c \<noteq> CHR ''_'') (float_strip ''39.984702'')),
           ''lon'' \<mapsto> decimal_value (filter (\<lambda>c. c \<noteq> CHR ''_'') (float_strip ''116.318417'')),
           ''ts'' \<mapsto> ts])"
    using v sample_datetime by (intro parseLogLine_record [OF fs]) (simp_all add: py_float_valid)
  then have c: "\<exists>r. parseLogLine decimal_value utc_timestamp sample_line = Inr r
        \<and> r ''ts'' = Some 1224730384"
    by (simp add: sample_timestamp bind_e_def)
  have d: "strptime (split_comma sample_line ! 4 @ split_comma sample_line ! 5
        @ split_comma sample_line ! 6) = Inl ValueError" by code_simp
  have e: "strptime (split_comma sample_line ! 4 @ '' '' @ split_comma sample_line ! 5 @ '' ''
        @ split_comma sample_line ! 6) = Inl ValueError" by code_simp
  from a b c d e show ?thesis by blast
qed








text \<open>
  Claim C4. For a non-empty list of location records with pairwise distinct
  timestamps, the three steps of the origin cell (project \<open>ts\<close>, take the minimum, keep
  the records whose \<open>ts\<close> is the minimum) return exactly one record, a record of the
  list, and its timestamp is at most the timestamp of every record of the list.
\<close>

theorem origin_single_minimum:
  fixes coordinates :: "(string \<rightharpoonup> 'f::linorder) list"
  assumes "coordinates \<noteq> []"
    and "\<forall>loc \<in> set coordinates. location_record loc"
    and "distinct (map (\<lambda>loc. the (loc ''ts'')) coordinates)"
  shows "\<exists>loc. origin coordinates = Inr [loc] \<and> loc \<in> set coordinates
     \<and> (\<forall>other \<in> set coordinates. the (loc ''ts'') \<le> the (other ''ts''))"
proof -
  let ?ts = "\<lambda>loc. the (loc ''ts'')"
  have keys: "\<forall>loc \<in> set coordinates. ''ts'' \<in> dom loc"
    using assms(2) by (simp add: location_record_def)
  obtain c cs where cs: "coordinates = c # cs"
    using assms(1) by (cases coordinates) auto
  define m where "m = Min (set (map ?ts coordinates))"
  have min: "rdd_min (map ?ts coordinates) = Inr m"
    by (simp add: cs m_def foldl_py_min)
  have "m \<in> set (map ?ts coordinates)"
    unfolding m_def using assms(1) by (intro Min_in) auto
  then obtain loc where loc: "loc \<in> set coordinates" "?ts loc = m" by auto
  have le: "\<forall>other \<in> set coordinates. m \<le> ?ts other"
    unfolding m_def by (auto intro: Min_le)
  have "filter (\<lambda>y. ?ts y = ?ts loc) coordinates = [loc]"
    using filter_unique [OF assms(3) loc(1)] .
  then have "origin coordinates = Inr [loc]"
    by (simp add: origin_def timestampsRDD_all [OF keys] min originRDD_all [OF keys] bind_e_def loc(2))
  with loc le show ?thesis by auto
qed

text \<open>The theorem of C4 on three records: the one with the least timestamp is returned.\<close>

theorem origin_single_minimum_witness:
  "sample_records \<noteq> [] \<and> list_all location_record sample_records
   \<and> distinct (map (\<lambda>loc. the (loc ''ts'')) sample_records)
   \<and> (\<exists>loc. origin sample_records = Inr [loc] \<and> loc ''ts'' = Some 10)"
proof -
  have a: "sample_records \<noteq> []" by (simp add: sample_records_def)
  have b: "\<forall>loc \<in> set sample_records. location_record loc"
    by (auto simp: sample_records_def location_record_def)
  have c: "distinct (map (\<lambda>loc. the (loc ''ts'')) sample_records)"
    by (simp add: sample_records_def)
  from origin_single_minimum [OF a b c] obtain loc where
    loc: "origin sample_records = Inr [loc]" "loc \<in> set sample_records"
      "\<forall>other \<in> set sample_records. the (loc ''ts'') \<le> the (other ''ts'')" by blast
  from loc(2,3) have "loc ''ts'' = Some 10"
    by (auto simp: sample_records_def)
  with a b c loc(1) show ?thesis by (auto simp: list_all_iff)
qed

text \<open>
  Claim C10. When no line of the file passes the validity predicate, the origin cell
  fails with the ValueError of the minimum step: filtering and parsing give an empty
  RDD, projecting the timestamps gives an empty RDD, and \<open>min()\<close> of an empty RDD
  raises.
\<close>

theorem origin_cell_fails_without_valid_line:
  fixes strtod :: "string \<Rightarrow> 'f::linorder"
  assumes "\<forall>line \<in> set rdd1. \<not> notTraceMetadata line"
  shows "coordinatesRDD strtod timestamp rdd1 = Inr []
     \<and> timestampsRDD ([] :: (string \<rightharpoonup> 'f) list) = Inr []
     \<and> rdd_min ([] :: 'f list) = Inl ValueError
     \<and> origin_cell strtod timestamp rdd1 = Inl ValueError"
proof -
  have "filter notTraceMetadata rdd1 = []"
    using assms by (simp add: filter_empty_conv)
  then have c: "coordinatesRDD strtod timestamp rdd1 = Inr []"
    by (simp add: coordinatesRDD_def linesRDD_eq bind_e_def)
  then show ?thesis
    by (simp add: origin_cell_def origin_def timestampsRDD_def bind_e_def)
qed

text \<open>The theorem of C10 on a file that holds only the six header lines.\<close>

theorem origin_cell_fails_without_valid_line_witness:
  "list_all (\<lambda>line. \<not> notTraceMetadata line) header_lines
   \<and> origin_cell decimal_value utc_timestamp header_lines = Inl ValueError"
proof -
  have h: "\<forall>line \<in> set header_lines. \<not> notTraceMetadata line"
    by code_simp
  have "list_all (\<lambda>line. \<not> notTraceMetadata line) header_lines"
    using h by (simp add: list_all_iff)
  with origin_cell_fails_without_valid_line [OF h, of decimal_value utc_timestamp]
  show ?thesis by simp
qed

end
